theory Spec2Isabelle
  imports Complex_Main "HOL-Library.AList" "HOL-Library.Sublist"
begin

section \<open>Data model of \<open>silver_platter/apply.py\<close>\<close>

text \<open>
  Python \<open>str\<close> and \<open>bytes\<close> values are both carried by HOL strings; the two UTF-8
  conversions between them are operations of the platform (see \<open>lib\<close> below), each of
  which may fail.  Revision identifiers are \<open>bytes\<close>.
\<close>

type_synonym str = string
type_synonym bytes = string
type_synonym path = string
type_synonym env = "(string \<times> string) list"

text \<open>
  What \<open>json.load\<close> returns, and what a caller may hand over as \<open>resume_metadata\<close>:
  \<open>None\<close>, booleans, integers, floats, strings, lists and dictionaries with string keys
  (a dictionary keeps its insertion order, so it is an association list).
\<close>

datatype json =
    JNull
  | JBool bool
  | JInt int
  | JFloat real
  | JStr str
  | JList "json list"
  | JObj "(str \<times> json) list"

text \<open>Python's truth value of such an object, as \<open>if x:\<close> and \<open>if not x:\<close> test it.\<close>

fun truthy :: "json \<Rightarrow> bool" where
  "truthy JNull = False"
| "truthy (JBool b) = b"
| "truthy (JInt i) = (i \<noteq> 0)"
| "truthy (JFloat x) = (x \<noteq> 0)"
| "truthy (JStr s) = (s \<noteq> [])"
| "truthy (JList xs) = (xs \<noteq> [])"
| "truthy (JObj kvs) = (kvs \<noteq> [])"

text \<open>
  The exceptions that can leave \<open>script_runner\<close>: the two the module declares and the
  built-in ones its statements raise.  \<open>FileNotFoundError\<close> and \<open>PointlessCommit\<close> are
  the two that the function catches itself.
\<close>

datatype error =
    ScriptFailed string int
  | ScriptMadeNoChanges
  | PointlessCommit
  | FileNotFoundError
  | IsADirectoryError
  | JSONDecodeError
  | TypeError
  | AttributeError
  | ValueError
  | UnicodeDecodeError
  | UnicodeEncodeError

text \<open>
  The dataclass \<open>CommandResult\<close>.  The annotations are not enforced at run time, so the
  three fields read from the payload hold whatever JSON value the script wrote, and a
  tag name read from the payload is any JSON value too.  \<open>tags = None\<close> is the marker
  \<open>from_json\<close> leaves for a payload without a \<open>tags\<close> key.
\<close>

record CommandResult =
  description :: json
  value' :: json
  context' :: json
  tags :: "(json \<times> bytes) list option"
  old_revision :: "bytes option"
  new_revision :: "bytes option"

text \<open>\<open>CommandResult()\<close>: every field at its declared default.\<close>

definition CommandResult_default :: CommandResult where
  "CommandResult_default =
     \<lparr>description = JNull, value' = JNull, context' = JObj [], tags = Some [],
      old_revision = None, new_revision = None\<rparr>"

section \<open>Collaborators\<close>

text \<open>
  Modelled from the spec: the working tree (\<open>breezy.workingtree.WorkingTree\<close>, the
  spec's VersionedTree: current revision id, tag mapping, commit with a message that
  fails with \<open>PointlessCommit\<close> when there is nothing to commit, absolute path).
  \<open>pending\<close> is \<open>None\<close> when the tree holds nothing to commit, and otherwise the
  identifier of the revision the next commit creates.
\<close>

record tree =
  last_rev :: bytes
  tag_dict :: "(str \<times> bytes) list"
  pending :: "bytes option"
  abspath :: "str \<Rightarrow> path"

definition commit :: "json \<Rightarrow> tree \<Rightarrow> error + bytes \<times> tree" where
  "commit message t =
     (case pending t of
        None \<Rightarrow> Inl PointlessCommit
      | Some r \<Rightarrow> Inr (r, t\<lparr>last_rev := r, pending := None\<rparr>))"

text \<open>
  Everything the run and the child process share: the files (path and content), the
  directories, and the working tree.
\<close>

record world =
  files :: "(path \<times> str) list"
  dirs :: "path list"
  local_tree :: tree

text \<open>
  The platform the function runs on, each field one library call: \<open>os.environ\<close>, the
  directory name \<open>tempfile\<close> picks, \<open>subprocess.Popen(script, cwd, env, shell=True)\<close>
  followed by \<open>communicate\<close> (exit status, captured standard output, and the world the
  child leaves behind), the JSON parser and printer, and the UTF-8 codec.  The child
  is taken to be launched and to finish: an operating system error of \<open>Popen\<close> itself
  is not part of the model.
\<close>

record lib =
  environ :: env
  mkdtemp :: "world \<Rightarrow> path"
  popen :: "string \<Rightarrow> path \<Rightarrow> env \<Rightarrow> world \<Rightarrow> int \<times> bytes \<times> world"
  json_loads :: "str \<Rightarrow> json option"
  json_dumps :: "json \<Rightarrow> str"
  utf8_decode :: "bytes \<Rightarrow> str option"
  utf8_encode :: "str \<Rightarrow> bytes option"

text \<open>The calls the function makes on its collaborators, in the order it makes them.\<close>

datatype event =
    LastRevision
  | GetTagDict
  | Commit json
  | Mkdtemp path
  | OpenWrite path
  | OpenRead path
  | Popen string path env
  | Rmtree path

text \<open>\<open>os.path.join\<close> of two components (POSIX).\<close>

definition os_path_join :: "path \<Rightarrow> path \<Rightarrow> path" where
  "os_path_join a b =
     (if take 1 b = ''/'' then b
      else if a = [] \<or> drop (length a - 1) a = ''/'' then a @ b
      else a @ ''/'' @ b)"

text \<open>\<open>open(p, 'w')\<close> creates the file or empties it; \<open>open(p, 'r')\<close> needs it to exist.\<close>

definition open_write :: "path \<Rightarrow> world \<Rightarrow> world" where
  "open_write p w = w\<lparr>files := AList.update p [] (files w)\<rparr>"

definition open_read :: "path \<Rightarrow> world \<Rightarrow> error + str" where
  "open_read p w =
     (case map_of (files w) p of
        Some c \<Rightarrow> Inr c
      | None \<Rightarrow> if p \<in> set (dirs w) then Inl IsADirectoryError else Inl FileNotFoundError)"

text \<open>
  \<open>json.dump(obj, fp)\<close>: \<open>obj\<close> is serialised and the text written to \<open>fp\<close>.  Either
  argument is a data value or an open file; a file is not serialisable, and a data
  value has no \<open>write\<close>.
\<close>

datatype pyobj = FileObj path | Data json

definition json_dump :: "lib \<Rightarrow> pyobj \<Rightarrow> pyobj \<Rightarrow> world \<Rightarrow> error + world" where
  "json_dump L obj fp w =
     (case obj of
        FileObj _ \<Rightarrow> Inl TypeError
      | Data d \<Rightarrow>
          (case fp of
             Data _ \<Rightarrow> Inl AttributeError
           | FileObj p \<Rightarrow>
               Inr (w\<lparr>files :=
                 AList.update p
                   ((case map_of (files w) p of None \<Rightarrow> [] | Some c \<Rightarrow> c) @ json_dumps L d)
                   (files w)\<rparr>)))"

text \<open>
  Leaving \<open>with tempfile.TemporaryDirectory()\<close> removes the directory and everything
  below it.
\<close>

definition inside :: "path \<Rightarrow> path \<Rightarrow> bool" where
  "inside td p = (p = td \<or> prefix (os_path_join td []) p)"

definition rmtree :: "path \<Rightarrow> world \<Rightarrow> world" where
  "rmtree td w =
     w\<lparr>files := filter (\<lambda>(p, c). \<not> inside td p) (files w),
       dirs := filter (\<lambda>p. \<not> inside td p) (dirs w)\<rparr>"

section \<open>\<open>CommandResult.from_json\<close>\<close>

text \<open>
  What a \<open>for\<close> loop or a tuple assignment iterates over: the elements of a list, the
  characters of a string, the keys of a dictionary; any other JSON value is not
  iterable.
\<close>

fun iter_items :: "json \<Rightarrow> error + json list" where
  "iter_items (JList xs) = Inr xs"
| "iter_items (JStr s) = Inr (map (\<lambda>c. JStr [c]) s)"
| "iter_items (JObj kvs) = Inr (map (\<lambda>kv. JStr (fst kv)) kvs)"
| "iter_items _ = Inl TypeError"

text \<open>\<open>name, revid = item\<close>: the item must yield exactly two values.\<close>

definition unpack_pair :: "json \<Rightarrow> error + json \<times> json" where
  "unpack_pair item =
     (case iter_items item of
        Inl e \<Rightarrow> Inl e
      | Inr [a, b] \<Rightarrow> Inr (a, b)
      | Inr _ \<Rightarrow> Inl ValueError)"

text \<open>\<open>revid.encode('utf-8')\<close>: only a string has the method.\<close>

definition encode_revid :: "lib \<Rightarrow> json \<Rightarrow> error + bytes" where
  "encode_revid L revid =
     (case revid of
        JStr s \<Rightarrow> (case utf8_encode L s of None \<Rightarrow> Inl UnicodeEncodeError | Some b \<Rightarrow> Inr b)
      | _ \<Rightarrow> Inl AttributeError)"

text \<open>The loop of lines 53-54, stopping at the first entry that raises.\<close>

fun collect_tags :: "lib \<Rightarrow> json list \<Rightarrow> error + (json \<times> bytes) list" where
  "collect_tags L [] = Inr []"
| "collect_tags L (item # rest) =
     (case unpack_pair item of
        Inl e \<Rightarrow> Inl e
      | Inr (name, revid) \<Rightarrow>
          (case encode_revid L revid of
             Inl e \<Rightarrow> Inl e
           | Inr b \<Rightarrow>
               (case collect_tags L rest of
                  Inl e \<Rightarrow> Inl e
                | Inr ts \<Rightarrow> Inr ((name, b) # ts))))"

text \<open>\<open>data.get(k, d)\<close> on a dictionary.\<close>

definition dict_get :: "(str \<times> json) list \<Rightarrow> str \<Rightarrow> json \<Rightarrow> json" where
  "dict_get kvs k d = (case map_of kvs k of None \<Rightarrow> d | Some v \<Rightarrow> v)"

text \<open>
  Lines 49-61.  For a dictionary, \<open>'tags' in data\<close> asks for the key.  On a list or a
  string the test is membership or substring, after which \<open>data['tags']\<close> (a
  \<open>TypeError\<close>) or \<open>data.get\<close> (an \<open>AttributeError\<close>) raises; on the remaining values
  the test itself raises.
\<close>

definition from_json :: "lib \<Rightarrow> json \<Rightarrow> error + CommandResult" where
  "from_json L data =
     (case data of
        JObj kvs \<Rightarrow>
          (case (case map_of kvs ''tags'' of
                   None \<Rightarrow> Inr None
                 | Some t \<Rightarrow>
                     (case iter_items t of
                        Inl e \<Rightarrow> Inl e
                      | Inr items \<Rightarrow>
                          (case collect_tags L items of
                             Inl e \<Rightarrow> Inl e
                           | Inr ts \<Rightarrow> Inr (Some ts)))) of
             Inl e \<Rightarrow> Inl e
           | Inr tgs \<Rightarrow>
               Inr \<lparr>description = dict_get kvs ''description'' JNull,
                    value' = dict_get kvs ''value'' JNull,
                    context' = dict_get kvs ''context'' (JObj []),
                    tags = tgs, old_revision = None, new_revision = None\<rparr>)
      | JList xs \<Rightarrow> if JStr ''tags'' \<in> set xs then Inl TypeError else Inl AttributeError
      | JStr s \<Rightarrow> if sublist ''tags'' s then Inl TypeError else Inl AttributeError
      | _ \<Rightarrow> Inl TypeError)"

section \<open>\<open>script_runner\<close>\<close>

text \<open>
  Lines 79-92, the snapshot of lines 81-82 apart: the environment is built, the
  temporary directory created, the resume metadata written when it is truthy, and the
  child run to completion.  The result is the error raised on the way or the child's
  exit status and output, with the directory, the world left behind and the calls made.
\<close>

definition execute ::
  "lib \<Rightarrow> world \<Rightarrow> string \<Rightarrow> json \<Rightarrow> str \<Rightarrow> (error + int \<times> bytes) \<times> path \<times> world \<times> event list"
where
  "execute L w0 script resume_metadata subpath =
     (let env0 = AList.update ''SVP_API'' ''1'' (environ L);
          td = mkdtemp L w0;
          w1 = w0\<lparr>dirs := td # dirs w0\<rparr>;
          env1 = AList.update ''SVP_RESULT'' (os_path_join td ''result.json'') env0
      in case (if truthy resume_metadata then
                 let f = os_path_join td ''resume-metadata.json'';
                     env2 = AList.update ''SVP_RESUME'' f env1;
                     w2 = open_write f w1
                 in (case json_dump L (FileObj f) (Data resume_metadata) w2 of
                       Inl e \<Rightarrow> (Inl e, w2, [OpenWrite f])
                     | Inr w3 \<Rightarrow> (Inr env2, w3, [OpenWrite f]))
               else (Inr env1, w1, [])) of
           (Inl e, w, tr) \<Rightarrow> (Inl e, td, w, Mkdtemp td # tr)
         | (Inr env', w, tr) \<Rightarrow>
             (let cwd = abspath (local_tree w) subpath in
              case popen L script cwd env' w of
                (returncode, description_encoded, w') \<Rightarrow>
                  (Inr (returncode, description_encoded), td, w',
                   Mkdtemp td # tr @ [Popen script cwd env'])))"

text \<open>
  Lines 95-99: the result file is opened, parsed and decoded; \<open>FileNotFoundError\<close>, and
  only that, is caught and replaced by the default result.
\<close>

definition read_result :: "lib \<Rightarrow> path \<Rightarrow> world \<Rightarrow> error + CommandResult" where
  "read_result L p w =
     (case (case open_read p w of
              Inl e \<Rightarrow> Inl e
            | Inr content \<Rightarrow>
                (case json_loads L content of
                   None \<Rightarrow> Inl JSONDecodeError
                 | Some data \<Rightarrow> from_json L data)) of
        Inl e \<Rightarrow> if e = FileNotFoundError then Inr CommandResult_default else Inl e
      | Inr result \<Rightarrow> Inr result)"

text \<open>
  The loop of lines 105-107 over the items of the tag dictionary read after the script
  has run: \<open>orig_tags.get(name)\<close> is \<open>None\<close> for a name that was not there before.
\<close>

fun changed_tags :: "(str \<times> bytes) list \<Rightarrow> (str \<times> bytes) list \<Rightarrow> (json \<times> bytes) list" where
  "changed_tags orig_tags [] = []"
| "changed_tags orig_tags ((name, revid) # rest) =
     (if map_of orig_tags name \<noteq> Some revid
      then (JStr name, revid) # changed_tags orig_tags rest
      else changed_tags orig_tags rest)"

text \<open>A finished run: what it returned or raised, the world it left, the calls it made.\<close>

record run =
  outcome :: "error + CommandResult"
  final :: world
  calls :: "event list"

text \<open>
  Lines 100-101: a result without a truthy description takes the captured output,
  decoded as UTF-8 text.
\<close>

definition with_description :: "lib \<Rightarrow> CommandResult \<Rightarrow> bytes \<Rightarrow> error + CommandResult" where
  "with_description L result description_encoded =
     (if \<not> truthy (description result)
      then (case utf8_decode L description_encoded of
              None \<Rightarrow> Inl UnicodeDecodeError
            | Some d \<Rightarrow> Inr (result\<lparr>description := JStr d\<rparr>))
      else Inr result)"

text \<open>
  Lines 100-121, after the temporary directory is gone: the description falls back to
  the decoded output, the tags are computed when the payload left them out, pending
  changes are committed when asked for or when the script made no commit and the
  caller left the choice open, and the run fails when the revision did not move.
\<close>

definition reconcile ::
  "lib \<Rightarrow> bool option \<Rightarrow> bytes \<Rightarrow> (str \<times> bytes) list \<Rightarrow> CommandResult \<Rightarrow> bytes \<Rightarrow>
   world \<Rightarrow> event list \<Rightarrow> run"
where
  "reconcile L commit_pending last_revision orig_tags result description_encoded w tr =
     (case with_description L result description_encoded of
        Inl e \<Rightarrow> \<lparr>outcome = Inl e, final = w, calls = tr\<rparr>
      | Inr result1 \<Rightarrow>
          (let new_revision0 = last_rev (local_tree w);
               tr1 = tr @ [LastRevision];
               (result2, tr2) =
                 (if tags result1 = None
                  then (result1\<lparr>tags := Some (changed_tags orig_tags (tag_dict (local_tree w)))\<rparr>,
                        tr1 @ [GetTagDict])
                  else (result1, tr1));
               commit_pending1 =
                 (if last_revision = new_revision0 \<and> commit_pending = None
                  then Some True else commit_pending)
           in case (if commit_pending1 = Some True
                    then (case commit (description result2) (local_tree w) of
                            Inl e \<Rightarrow>
                              if e = PointlessCommit
                              then Inr (new_revision0, w, tr2 @ [Commit (description result2)])
                              else Inl (e, tr2 @ [Commit (description result2)])
                          | Inr (r, t) \<Rightarrow>
                              Inr (r, w\<lparr>local_tree := t\<rparr>, tr2 @ [Commit (description result2)]))
                    else Inr (new_revision0, w, tr2)) of
                Inl (e, tr3) \<Rightarrow> \<lparr>outcome = Inl e, final = w, calls = tr3\<rparr>
              | Inr (new_revision1, w1, tr3) \<Rightarrow>
                  if new_revision1 = last_revision
                  then \<lparr>outcome = Inl ScriptMadeNoChanges, final = w1, calls = tr3\<rparr>
                  else \<lparr>outcome =
                          Inr (result2\<lparr>old_revision := Some last_revision,
                                       new_revision := Some (last_rev (local_tree w1))\<rparr>),
                        final = w1, calls = tr3 @ [LastRevision]\<rparr>))"

text \<open>
  The whole function.  The \<open>with\<close> block is left, and the directory removed, on each of
  its exits: an error while preparing, a non-zero exit status, an error while reading
  the result, and the normal one.
\<close>

definition script_runner ::
  "lib \<Rightarrow> world \<Rightarrow> string \<Rightarrow> bool option \<Rightarrow> json \<Rightarrow> str \<Rightarrow> run"
where
  "script_runner L w0 script commit_pending resume_metadata subpath =
     (let last_revision = last_rev (local_tree w0);
          orig_tags = tag_dict (local_tree w0)
      in case execute L w0 script resume_metadata subpath of
           (x, td, w, tr) \<Rightarrow>
             (let tr0 = [LastRevision, GetTagDict] @ tr;
                  result_path = os_path_join td ''result.json''
              in case x of
                   Inl e \<Rightarrow> \<lparr>outcome = Inl e, final = rmtree td w, calls = tr0 @ [Rmtree td]\<rparr>
                 | Inr (returncode, description_encoded) \<Rightarrow>
                     if returncode \<noteq> 0
                     then \<lparr>outcome = Inl (ScriptFailed script returncode),
                           final = rmtree td w, calls = tr0 @ [Rmtree td]\<rparr>
                     else (case read_result L result_path w of
                             Inl e \<Rightarrow>
                               \<lparr>outcome = Inl e, final = rmtree td w,
                                calls = tr0 @ [OpenRead result_path, Rmtree td]\<rparr>
                           | Inr result \<Rightarrow>
                               reconcile L commit_pending last_revision orig_tags result
                                 description_encoded (rmtree td w)
                                 (tr0 @ [OpenRead result_path, Rmtree td]))))"

section \<open>Auxiliary notions\<close>

text \<open>
  Two abbreviations for the lemmas about lines 100-121: the result after the tag
  computation of lines 103-107, and the condition under which line 114 is reached.
\<close>

definition tagged :: "(str \<times> bytes) list \<Rightarrow> world \<Rightarrow> CommandResult \<Rightarrow> CommandResult" where
  "tagged orig_tags w result =
     (if tags result = None
      then result\<lparr>tags := Some (changed_tags orig_tags (tag_dict (local_tree w)))\<rparr>
      else result)"

definition commits :: "bool option \<Rightarrow> bytes \<Rightarrow> world \<Rightarrow> bool" where
  "commits commit_pending last_revision w =
     (commit_pending = Some True \<or>
      (commit_pending = None \<and> last_revision = last_rev (local_tree w)))"

text \<open>
  The tag delta in the words of the specification, for comparison with the loop of
  lines 105-107: the pairs \<open>(n, after[n])\<close> for the names \<open>n\<close> of the after mapping
  with \<open>after[n] != before.get(n)\<close>, in the order of the after mapping.
\<close>

definition tag_delta :: "(str \<times> bytes) list \<Rightarrow> (str \<times> bytes) list \<Rightarrow> (json \<times> bytes) list" where
  "tag_delta before after =
     map (\<lambda>n. (JStr n, the (map_of after n)))
       (filter (\<lambda>n. Some (the (map_of after n)) \<noteq> map_of before n) (map fst after))"

section \<open>Example runs\<close>

text \<open>
  A tree at revision \<open>rev1\<close> with two tags and nothing to commit, a platform whose
  temporary directory is \<open>/tmp/svp\<close>, and a handful of scripts: \<open>fail\<close> writes a
  well-formed result and exits with status 3; \<open>edit\<close> changes files without committing
  and reports a description; \<open>release\<close>, \<open>quiet\<close> and \<open>silent\<close> commit revision \<open>rev2\<close>
  themselves, move tag \<open>v1\<close>, add tag \<open>v2\<close> and delete tag \<open>old\<close>, and write a result
  without tags, a result with an empty tag list, and no result; \<open>garbage\<close> writes a
  result that is not JSON; any other script does nothing.
\<close>

definition demo_tree :: tree where
  "demo_tree =
     \<lparr>last_rev = ''rev1'', tag_dict = [(''v1'', ''rev1''), (''old'', ''rev0'')],
      pending = None, abspath = os_path_join ''/work''\<rparr>"

definition demo_world :: world where
  "demo_world = \<lparr>files = [], dirs = [''/tmp'', ''/work''], local_tree = demo_tree\<rparr>"

definition released :: "world \<Rightarrow> world" where
  "released w =
     w\<lparr>local_tree :=
         (local_tree w)\<lparr>last_rev := ''rev2'', tag_dict := [(''v1'', ''rev2''), (''v2'', ''rev2'')]\<rparr>\<rparr>"

definition write_result :: "env \<Rightarrow> str \<Rightarrow> world \<Rightarrow> world" where
  "write_result env content w =
     (case map_of env ''SVP_RESULT'' of
        None \<Rightarrow> w
      | Some p \<Rightarrow> w\<lparr>files := AList.update p content (files w)\<rparr>)"

definition demo_popen :: "string \<Rightarrow> path \<Rightarrow> env \<Rightarrow> world \<Rightarrow> int \<times> bytes \<times> world" where
  "demo_popen script cwd env w =
     (if script = ''fail'' then (3, ''failed'', write_result env ''{description: Fix typo}'' w)
      else if script = ''edit'' then
        (0, ''edited'',
         write_result env ''{description: Fix typo}''
           (w\<lparr>local_tree := (local_tree w)\<lparr>pending := Some ''rev2''\<rparr>\<rparr>))
      else if script = ''release'' then
        (0, ''released'', write_result env ''{description: Fix typo}'' (released w))
      else if script = ''quiet'' then (0, ''released'', write_result env ''{tags: []}'' (released w))
      else if script = ''silent'' then (0, ''released'', released w)
      else if script = ''garbage'' then (0, [], write_result env ''{'' w)
      else (0, [], w))"

definition demo_loads :: "str \<Rightarrow> json option" where
  "demo_loads s =
     (if s = ''{description: Fix typo}'' then Some (JObj [(''description'', JStr ''Fix typo'')])
      else if s = ''{tags: []}'' then Some (JObj [(''tags'', JList [])])
      else None)"

definition demo_lib :: lib where
  "demo_lib =
     \<lparr>environ = [(''HOME'', ''/root'')], mkdtemp = (\<lambda>w. ''/tmp/svp''), popen = demo_popen,
      json_loads = demo_loads,
      json_dumps = (\<lambda>d. if d = JObj [(''attempt'', JInt 2)] then ''{attempt: 2}'' else ''null''),
      utf8_decode = Some,
      utf8_encode = Some\<rparr>"

text \<open>
  The same platform with a script that commits like \<open>silent\<close>, writes no result and
  prints the single byte \<open>0xFF\<close>, and a decoder that refuses a byte sequence with that
  byte in it (no UTF-8 text contains it).
\<close>

definition binary_lib :: lib where
  "binary_lib =
     demo_lib\<lparr>popen := (\<lambda>script cwd env w. (0, [CHR 0xFF], released w)),
              utf8_decode := (\<lambda>b. if CHR 0xFF \<in> set b then None else Some b)\<rparr>"

section \<open>Stages of a run\<close>

text \<open>
  Truthy resume metadata never reaches the child: line 88 hands the file to
  \<open>json.dump\<close> as the object to serialise.  So a run in which the child is launched is
  one with falsy metadata, and the calls up to then are the directory and the child.
\<close>

lemma execute_Inl:
  "truthy resume_metadata \<Longrightarrow>
   execute L w0 script resume_metadata subpath =
     (Inl TypeError, mkdtemp L w0,
      open_write (os_path_join (mkdtemp L w0) ''resume-metadata.json'')
        (w0\<lparr>dirs := mkdtemp L w0 # dirs w0\<rparr>),
      [Mkdtemp (mkdtemp L w0), OpenWrite (os_path_join (mkdtemp L w0) ''resume-metadata.json'')])"
  by (simp add: execute_def json_dump_def Let_def)

lemma execute_Inr:
  assumes "execute L w0 script resume_metadata subpath = (Inr (rc, out), td, w, tr)"
  shows "\<not> truthy resume_metadata \<and> td = mkdtemp L w0 \<and>
         (\<exists>env. tr = [Mkdtemp td, Popen script (abspath (local_tree w0) subpath) env] \<and>
            popen L script (abspath (local_tree w0) subpath) env (w0\<lparr>dirs := td # dirs w0\<rparr>) = (rc, out, w))"
  using assms
  by (auto simp add: execute_def json_dump_def Let_def split: if_splits prod.splits)

lemma execute_td:
  "execute L w0 script resume_metadata subpath = (x, td, w, tr) \<Longrightarrow> td = mkdtemp L w0"
  by (auto simp add: execute_def json_dump_def Let_def split: if_splits prod.splits)

text \<open>What removing the directory leaves, and the branches of lines 100-121.\<close>

lemma rmtree_dirs: "td \<notin> set (dirs (rmtree td w))"
  by (simp add: rmtree_def inside_def)

lemma rmtree_files: "inside td p \<Longrightarrow> map_of (files (rmtree td w)) p = None"
  by (auto simp add: rmtree_def map_of_eq_None_iff)

lemma inside_join: "take 1 name \<noteq> ''/'' \<Longrightarrow> inside td (os_path_join td name)"
  by (auto simp add: inside_def os_path_join_def)

lemma reconcile_undecodable:
  "with_description L res out = Inl e \<Longrightarrow>
   reconcile L cp lr ot res out w tr = \<lparr>outcome = Inl e, final = w, calls = tr\<rparr>"
  by (simp add: reconcile_def)

lemma reconcile_no_commit:
  assumes "with_description L res out = Inr res1" and "\<not> commits cp lr w"
  shows "reconcile L cp lr ot res out w tr =
     (if last_rev (local_tree w) = lr
      then \<lparr>outcome = Inl ScriptMadeNoChanges, final = w,
            calls = tr @ [LastRevision] @ (if tags res1 = None then [GetTagDict] else [])\<rparr>
      else \<lparr>outcome = Inr ((tagged ot w res1)\<lparr>old_revision := Some lr,
                            new_revision := Some (last_rev (local_tree w))\<rparr>),
            final = w,
            calls = tr @ [LastRevision] @ (if tags res1 = None then [GetTagDict] else []) @
                    [LastRevision]\<rparr>)"
  using assms by (auto simp add: reconcile_def commits_def tagged_def Let_def)

lemma reconcile_pointless:
  assumes "with_description L res out = Inr res1" and "commits cp lr w"
    and "pending (local_tree w) = None"
  shows "reconcile L cp lr ot res out w tr =
     (if last_rev (local_tree w) = lr
      then \<lparr>outcome = Inl ScriptMadeNoChanges, final = w,
            calls = tr @ [LastRevision] @ (if tags res1 = None then [GetTagDict] else []) @
                    [Commit (description res1)]\<rparr>
      else \<lparr>outcome = Inr ((tagged ot w res1)\<lparr>old_revision := Some lr,
                            new_revision := Some (last_rev (local_tree w))\<rparr>),
            final = w,
            calls = tr @ [LastRevision] @ (if tags res1 = None then [GetTagDict] else []) @
                    [Commit (description res1), LastRevision]\<rparr>)"
  using assms by (auto simp add: reconcile_def commits_def tagged_def commit_def Let_def)

lemma reconcile_committed:
  assumes "with_description L res out = Inr res1" and "commits cp lr w"
    and "pending (local_tree w) = Some r"
  shows "reconcile L cp lr ot res out w tr =
     (if r = lr
      then \<lparr>outcome = Inl ScriptMadeNoChanges,
            final = w\<lparr>local_tree := (local_tree w)\<lparr>last_rev := r, pending := None\<rparr>\<rparr>,
            calls = tr @ [LastRevision] @ (if tags res1 = None then [GetTagDict] else []) @
                    [Commit (description res1)]\<rparr>
      else \<lparr>outcome = Inr ((tagged ot w res1)\<lparr>old_revision := Some lr, new_revision := Some r\<rparr>),
            final = w\<lparr>local_tree := (local_tree w)\<lparr>last_rev := r, pending := None\<rparr>\<rparr>,
            calls = tr @ [LastRevision] @ (if tags res1 = None then [GetTagDict] else []) @
                    [Commit (description res1), LastRevision]\<rparr>)"
  using assms by (auto simp add: reconcile_def commits_def tagged_def commit_def Let_def)

lemma reconcile_files:
  "files (final (reconcile L cp lr ot res out w tr)) = files w \<and>
   dirs (final (reconcile L cp lr ot res out w tr)) = dirs w"
proof (cases "with_description L res out")
  case (Inl e)
  then show ?thesis by (simp add: reconcile_undecodable)
next
  case (Inr res1)
  show ?thesis
  proof (cases "commits cp lr w")
    case False
    with Inr show ?thesis by (simp add: reconcile_no_commit)
  next
    case True
    with Inr show ?thesis
      by (cases "pending (local_tree w)") (simp_all add: reconcile_pointless reconcile_committed)
  qed
qed

lemma script_runner_final_files:
  "execute L w0 script resume_metadata subpath = (x, td, w, tr) \<Longrightarrow>
   files (final (script_runner L w0 script commit_pending resume_metadata subpath)) = files (rmtree td w) \<and>
   dirs (final (script_runner L w0 script commit_pending resume_metadata subpath)) = dirs (rmtree td w)"
  by (simp add: script_runner_def Let_def reconcile_files split: sum.splits prod.splits)

text \<open>
  The four ways through the function: an error while preparing, a non-zero exit
  status, an error while reading the result, and lines 100-121.
\<close>

lemma rmtree_tree: "local_tree (rmtree td w) = local_tree w"
  by (simp add: rmtree_def)

lemma run_failed:
  "execute L w0 script resume_metadata subpath = (Inr (rc, out), td, w, tr) \<Longrightarrow> rc \<noteq> 0 \<Longrightarrow>
   script_runner L w0 script commit_pending resume_metadata subpath =
     \<lparr>outcome = Inl (ScriptFailed script rc), final = rmtree td w,
      calls = [LastRevision, GetTagDict] @ tr @ [Rmtree td]\<rparr>"
  by (simp add: script_runner_def)

lemma run_unprepared:
  "execute L w0 script resume_metadata subpath = (Inl e, td, w, tr) \<Longrightarrow>
   script_runner L w0 script commit_pending resume_metadata subpath =
     \<lparr>outcome = Inl e, final = rmtree td w,
      calls = [LastRevision, GetTagDict] @ tr @ [Rmtree td]\<rparr>"
  by (simp add: script_runner_def)

lemma run_undecoded:
  "execute L w0 script resume_metadata subpath = (Inr (0, out), td, w, tr) \<Longrightarrow>
   read_result L (os_path_join td ''result.json'') w = Inl e \<Longrightarrow>
   script_runner L w0 script commit_pending resume_metadata subpath =
     \<lparr>outcome = Inl e, final = rmtree td w,
      calls = [LastRevision, GetTagDict] @ tr @ [OpenRead (os_path_join td ''result.json''), Rmtree td]\<rparr>"
  by (simp add: script_runner_def)

lemma run_decoded:
  "execute L w0 script resume_metadata subpath = (Inr (0, out), td, w, tr) \<Longrightarrow>
   read_result L (os_path_join td ''result.json'') w = Inr res \<Longrightarrow>
   script_runner L w0 script commit_pending resume_metadata subpath =
     reconcile L commit_pending (last_rev (local_tree w0)) (tag_dict (local_tree w0)) res out
       (rmtree td w)
       ([LastRevision, GetTagDict] @ tr @ [OpenRead (os_path_join td ''result.json''), Rmtree td])"
  by (simp add: script_runner_def)

lemma run_returns:
  assumes "outcome (script_runner L w0 script commit_pending resume_metadata subpath) = Inr r"
  shows "\<exists>out td w tr res res1.
           execute L w0 script resume_metadata subpath = (Inr (0, out), td, w, tr) \<and>
           read_result L (os_path_join td ''result.json'') w = Inr res \<and>
           with_description L res out = Inr res1"
proof -
  obtain x td w tr where e: "execute L w0 script resume_metadata subpath = (x, td, w, tr)"
    by (cases "execute L w0 script resume_metadata subpath") auto
  show ?thesis
  proof (cases x)
    case (Inl e')
    with e assms show ?thesis by (simp add: run_unprepared)
  next
    case (Inr p)
    obtain rc out where p: "p = (rc, out)" by (cases p) auto
    have rc: "rc = 0" using assms e Inr p by (cases "rc = 0") (simp_all add: run_failed)
    show ?thesis
    proof (cases "read_result L (os_path_join td ''result.json'') w")
      case (Inl e')
      with e Inr p rc assms show ?thesis by (simp add: run_undecoded)
    next
      case res: (Inr res)
      show ?thesis
      proof (cases "with_description L res out")
        case (Inl e')
        with e Inr p rc res assms show ?thesis by (simp add: run_decoded reconcile_undecodable)
      next
        case (Inr res1)
        with e \<open>x = Inr p\<close> p rc res show ?thesis by simp
      qed
    qed
  qed
qed

text \<open>The outcome of lines 100-121, whichever branch is taken.\<close>

lemma reconcile_outcome:
  assumes "with_description L res out = Inr res1"
  shows "(last_rev (local_tree (final (reconcile L cp lr ot res out w tr))) = lr \<longrightarrow>
            outcome (reconcile L cp lr ot res out w tr) = Inl ScriptMadeNoChanges) \<and>
         (last_rev (local_tree (final (reconcile L cp lr ot res out w tr))) \<noteq> lr \<longrightarrow>
            outcome (reconcile L cp lr ot res out w tr) =
              Inr ((tagged ot w res1)\<lparr>old_revision := Some lr,
                     new_revision := Some (last_rev (local_tree (final (reconcile L cp lr ot res out w tr))))\<rparr>))"
proof (cases "commits cp lr w")
  case False
  with assms show ?thesis by (simp add: reconcile_no_commit)
next
  case True
  with assms show ?thesis
    by (cases "pending (local_tree w)") (simp_all add: reconcile_pointless reconcile_committed)
qed

text \<open>
  The errors each stage can raise.  \<open>FileNotFoundError\<close> and \<open>PointlessCommit\<close> are
  caught where they arise, so neither leaves the function.
\<close>

lemma tagged_description: "description (tagged ot w res) = description res"
  by (simp add: tagged_def)

lemma with_description_error: "with_description L res out = Inl e \<Longrightarrow> e = UnicodeDecodeError"
  by (auto simp add: with_description_def split: if_splits option.splits)

lemma iter_items_error: "iter_items t = Inl e \<Longrightarrow> e = TypeError"
  by (cases t) auto

lemma unpack_pair_error: "unpack_pair item = Inl e \<Longrightarrow> e = TypeError \<or> e = ValueError"
  by (auto simp add: unpack_pair_def split: sum.splits list.splits dest: iter_items_error)

lemma encode_revid_error:
  "encode_revid L revid = Inl e \<Longrightarrow> e = AttributeError \<or> e = UnicodeEncodeError"
  by (auto simp add: encode_revid_def split: json.splits option.splits)

lemma collect_tags_error:
  "collect_tags L items = Inl e \<Longrightarrow>
   e = TypeError \<or> e = ValueError \<or> e = AttributeError \<or> e = UnicodeEncodeError"
proof (induction items)
  case Nil
  then show ?case by simp
next
  case (Cons item rest)
  then show ?case
    by (auto split: sum.splits prod.splits dest: unpack_pair_error encode_revid_error)
qed

lemma from_json_error:
  "from_json L data = Inl e \<Longrightarrow>
   e = TypeError \<or> e = ValueError \<or> e = AttributeError \<or> e = UnicodeEncodeError"
  by (auto simp add: from_json_def split: json.splits option.splits sum.splits if_splits
      dest: collect_tags_error iter_items_error)

lemma read_result_error:
  "read_result L p w = Inl e \<Longrightarrow>
   e = IsADirectoryError \<or> e = JSONDecodeError \<or> e = TypeError \<or> e = ValueError \<or>
   e = AttributeError \<or> e = UnicodeEncodeError"
  by (auto simp add: read_result_def open_read_def split: sum.splits option.splits if_splits
      dest: from_json_error)

lemma execute_error:
  "execute L w0 script resume_metadata subpath = (Inl e, td, w, tr) \<Longrightarrow> e = TypeError"
  by (auto simp add: execute_def json_dump_def Let_def split: if_splits prod.splits)

lemma reconcile_error:
  "outcome (reconcile L cp lr ot res out w tr) = Inl e \<Longrightarrow>
   e = UnicodeDecodeError \<or> e = ScriptMadeNoChanges"
proof (cases "with_description L res out")
  case (Inl e')
  assume "outcome (reconcile L cp lr ot res out w tr) = Inl e"
  with Inl show ?thesis by (auto simp add: reconcile_undecodable dest: with_description_error)
next
  case (Inr res1)
  assume "outcome (reconcile L cp lr ot res out w tr) = Inl e"
  with reconcile_outcome[OF Inr, of cp lr ot w tr] show ?thesis
    by (cases "last_rev (local_tree (final (reconcile L cp lr ot res out w tr))) = lr") auto
qed

lemma run_error:
  assumes "outcome (script_runner L w0 script commit_pending resume_metadata subpath) = Inl e"
  shows "e \<noteq> PointlessCommit \<and> e \<noteq> FileNotFoundError"
proof -
  obtain x td w tr where ex: "execute L w0 script resume_metadata subpath = (x, td, w, tr)"
    by (cases "execute L w0 script resume_metadata subpath") auto
  show ?thesis
  proof (cases x)
    case (Inl e')
    with ex assms execute_error[of L w0 script resume_metadata subpath e' td w tr]
    show ?thesis by (auto simp add: run_unprepared)
  next
    case (Inr p)
    obtain rc out where p: "p = (rc, out)" by (cases p) auto
    show ?thesis
    proof (cases "rc = 0")
      case False
      with ex Inr p assms show ?thesis by (auto simp add: run_failed)
    next
      case True
      show ?thesis
      proof (cases "read_result L (os_path_join td ''result.json'') w")
        case (Inl e')
        with ex \<open>x = Inr p\<close> p True assms read_result_error[OF Inl]
        show ?thesis by (auto simp add: run_undecoded)
      next
        case res: (Inr res)
        from ex \<open>x = Inr p\<close> p True res assms
        have "outcome (reconcile L commit_pending (last_rev (local_tree w0)) (tag_dict (local_tree w0))
            res out (rmtree td w)
            ([LastRevision, GetTagDict] @ tr @ [OpenRead (os_path_join td ''result.json''), Rmtree td])) = Inl e"
          by (simp add: run_decoded)
        from reconcile_error[OF this] show ?thesis by auto
      qed
    qed
  qed
qed

lemma run_calls_before:
  assumes "execute L w0 script resume_metadata subpath = (Inr (rc, out), td, w, tr)"
  shows "Commit m \<notin> set ([LastRevision, GetTagDict] @ tr @ [OpenRead p, Rmtree td'])"
proof -
  from execute_Inr[OF assms] obtain env where
    "tr = [Mkdtemp td, Popen script (abspath (local_tree w0) subpath) env]" by blast
  then show ?thesis by simp
qed




lemma with_description_tags: "with_description L res out = Inr res1 \<Longrightarrow> tags res1 = tags res"
  by (auto simp add: with_description_def split: if_splits option.splits)

lemma reconcile_tags:
  assumes "outcome (reconcile L cp lr ot res out w tr) = Inr r"
  shows "tags r =
     (if tags res = None then Some (changed_tags ot (tag_dict (local_tree w))) else tags res)"
proof (cases "with_description L res out")
  case (Inl e)
  with assms show ?thesis by (simp add: reconcile_undecodable)
next
  case (Inr res1)
  from reconcile_outcome[OF Inr, of cp lr ot w tr] assms with_description_tags[OF Inr]
  show ?thesis
    by (cases "last_rev (local_tree (final (reconcile L cp lr ot res out w tr))) = lr")
      (auto simp add: tagged_def)
qed


lemma absent_result_tags_empty:
  assumes "execute L w0 script resume_metadata subpath = (Inr (0, out), td, w, tr)"
    and "open_read (os_path_join td ''result.json'') w = Inl FileNotFoundError"
    and "outcome (script_runner L w0 script commit_pending resume_metadata subpath) = Inr r"
  shows "tags r = Some []"
proof -
  have d: "read_result L (os_path_join td ''result.json'') w = Inr CommandResult_default"
    using assms(2) by (simp add: read_result_def)
  from reconcile_tags[of L commit_pending "last_rev (local_tree w0)" "tag_dict (local_tree w0)"
      CommandResult_default out "rmtree td w"] assms(3)
  show ?thesis by (simp add: run_decoded[OF assms(1) d] CommandResult_default_def)
qed

text \<open>
  A run without a result file: the default result, and what the run can end in.
\<close>

lemma absent_result_outcomes:
  assumes "execute L w0 script resume_metadata subpath = (Inr (0, out), td, w, tr)"
    and "map_of (files w) (os_path_join td ''result.json'') = None"
    and "os_path_join td ''result.json'' \<notin> set (dirs w)"
  shows "read_result L (os_path_join td ''result.json'') w = Inr CommandResult_default \<and>
         (\<forall>r. outcome (script_runner L w0 script commit_pending resume_metadata subpath) = Inr r \<longrightarrow>
            Some (description r) = map_option JStr (utf8_decode L out)) \<and>
         (\<forall>e. outcome (script_runner L w0 script commit_pending resume_metadata subpath) = Inl e \<longrightarrow>
            e = ScriptMadeNoChanges \<or> (e = UnicodeDecodeError \<and> utf8_decode L out = None))"
proof -
  let ?p = "os_path_join td ''result.json''"
  let ?R = "script_runner L w0 script commit_pending resume_metadata subpath"
  let ?lr = "last_rev (local_tree w0)"
  have d: "read_result L ?p w = Inr CommandResult_default"
    using assms(2,3) by (simp add: read_result_def open_read_def)
  let ?Q = "reconcile L commit_pending ?lr (tag_dict (local_tree w0)) CommandResult_default out
       (rmtree td w) ([LastRevision, GetTagDict] @ tr @ [OpenRead ?p, Rmtree td])"
  have R: "?R = ?Q" by (rule run_decoded[OF assms(1) d])
  have "(\<forall>r. outcome ?Q = Inr r \<longrightarrow> Some (description r) = map_option JStr (utf8_decode L out)) \<and>
        (\<forall>e. outcome ?Q = Inl e \<longrightarrow>
            e = ScriptMadeNoChanges \<or> (e = UnicodeDecodeError \<and> utf8_decode L out = None))"
  proof (cases "utf8_decode L out")
    case None
    then have "with_description L CommandResult_default out = Inl UnicodeDecodeError"
      by (simp add: with_description_def CommandResult_default_def)
    then show ?thesis using None by (simp add: reconcile_undecodable)
  next
    case (Some d)
    then have t: "with_description L CommandResult_default out =
        Inr (CommandResult_default\<lparr>description := JStr d\<rparr>)"
      by (simp add: with_description_def CommandResult_default_def)
    from reconcile_outcome[OF t, of commit_pending ?lr "tag_dict (local_tree w0)" "rmtree td w"
        "[LastRevision, GetTagDict] @ tr @ [OpenRead ?p, Rmtree td]"] Some
    show ?thesis
      by (cases "last_rev (local_tree (final ?Q)) = ?lr") (auto simp add: tagged_description)
  qed
  with d R show ?thesis by simp
qed

text \<open>Truthy resume metadata: the run ends at line 88, and no child is launched.\<close>

lemma resume_metadata_raises:
  assumes "truthy resume_metadata"
  shows "outcome (script_runner L w0 script commit_pending resume_metadata subpath) = Inl TypeError \<and>
         (\<forall>s c e. Popen s c e \<notin>
            set (calls (script_runner L w0 script commit_pending resume_metadata subpath)))"
  by (simp add: run_unprepared[OF execute_Inl[OF assms]])

text \<open>Unfolding the model and the example platform, for the example runs.\<close>

lemmas model_defs = script_runner_def execute_def read_result_def reconcile_def
  with_description_def open_read_def open_write_def json_dump_def rmtree_def inside_def
  os_path_join_def commit_def from_json_def dict_get_def CommandResult_default_def
  unpack_pair_def encode_revid_def Let_def


lemmas demo_defs = demo_lib_def demo_world_def demo_tree_def demo_popen_def demo_loads_def
  released_def write_result_def


section \<open>Properties of a run\<close>

text \<open>
  C2.  When the child exits with a non-zero status, \<open>script_runner\<close> raises
  \<open>ScriptFailed\<close> with the command and that status.  No commit is attempted, and the
  tree is not asked again for its revision or its tags: after the child, the only call
  is the removal of the directory, and the tree is as the child left it.
\<close>

theorem script_failed_no_commit:
  assumes "execute L w0 script resume_metadata subpath = (Inr (returncode, out), td, w, tr)"
    and "returncode \<noteq> 0"
  shows "outcome (script_runner L w0 script commit_pending resume_metadata subpath) =
           Inl (ScriptFailed script returncode) \<and>
         (\<forall>m. Commit m \<notin> set (calls (script_runner L w0 script commit_pending resume_metadata subpath))) \<and>
         (\<exists>cwd env. calls (script_runner L w0 script commit_pending resume_metadata subpath) =
            [LastRevision, GetTagDict, Mkdtemp td, Popen script cwd env, Rmtree td]) \<and>
         local_tree (final (script_runner L w0 script commit_pending resume_metadata subpath)) =
           local_tree w"
proof -
  from execute_Inr[OF assms(1)] obtain env where
    tr: "tr = [Mkdtemp td, Popen script (abspath (local_tree w0) subpath) env]" by blast
  show ?thesis
    using assms tr by (simp add: script_runner_def rmtree_def)
qed


theorem script_failed_no_commit_witness:
  "outcome (script_runner demo_lib demo_world ''fail'' None JNull []) =
     Inl (ScriptFailed ''fail'' 3) \<and>
   Commit (JStr ''Fix typo'') \<notin> set (calls (script_runner demo_lib demo_world ''fail'' None JNull [])) \<and>
   local_tree (final (script_runner demo_lib demo_world ''fail'' None JNull [])) = demo_tree"
proof -
  obtain w tr where e:
    "execute demo_lib demo_world ''fail'' JNull [] = (Inr (3, ''failed''), ''/tmp/svp'', w, tr)"
    and w: "local_tree w = demo_tree"
    by (simp add: execute_def demo_defs os_path_join_def Let_def)
  from script_failed_no_commit[OF e, of None] w show ?thesis by simp
qed

text \<open>
  C9.  On every exit of a run (a result, \<open>ScriptFailed\<close>, a failure to decode the
  result file, or any other error) the temporary directory is gone and no file is left
  inside it, the result file and the resume metadata file in particular.
\<close>

theorem tempdir_removed:
  "mkdtemp L w0 \<notin> set (dirs (final (script_runner L w0 script commit_pending resume_metadata subpath))) \<and>
   (\<forall>p. inside (mkdtemp L w0) p \<longrightarrow>
      map_of (files (final (script_runner L w0 script commit_pending resume_metadata subpath))) p = None) \<and>
   map_of (files (final (script_runner L w0 script commit_pending resume_metadata subpath)))
     (os_path_join (mkdtemp L w0) ''result.json'') = None \<and>
   map_of (files (final (script_runner L w0 script commit_pending resume_metadata subpath)))
     (os_path_join (mkdtemp L w0) ''resume-metadata.json'') = None"
proof -
  obtain x td w tr where e: "execute L w0 script resume_metadata subpath = (x, td, w, tr)"
    by (cases "execute L w0 script resume_metadata subpath") auto
  have td: "td = mkdtemp L w0" using e by (rule execute_td)
  have a: "inside td (os_path_join td ''result.json'')" by (rule inside_join) simp
  have b: "inside td (os_path_join td ''resume-metadata.json'')" by (rule inside_join) simp
  show ?thesis
    using script_runner_final_files[OF e, of commit_pending] a b
    by (simp add: td rmtree_dirs rmtree_files)
qed


theorem tempdir_removed_witness:
  "outcome (script_runner demo_lib demo_world ''garbage'' None JNull []) = Inl JSONDecodeError \<and>
   ''/tmp/svp'' \<notin> set (dirs (final (script_runner demo_lib demo_world ''garbage'' None JNull []))) \<and>
   map_of (files (final (script_runner demo_lib demo_world ''garbage'' None JNull [])))
     ''/tmp/svp/result.json'' = None \<and>
   outcome (script_runner demo_lib demo_world ''fail'' None JNull []) = Inl (ScriptFailed ''fail'' 3) \<and>
   map_of (files (final (script_runner demo_lib demo_world ''fail'' None JNull [])))
     ''/tmp/svp/result.json'' = None \<and>
   map_of (files (final (script_runner demo_lib demo_world ''release'' None JNull [])))
     ''/tmp/svp/result.json'' = None"
proof -
  have m: "mkdtemp demo_lib demo_world = ''/tmp/svp''" by (simp add: demo_lib_def)
  have j: "os_path_join ''/tmp/svp'' ''result.json'' = ''/tmp/svp/result.json''"
    by (simp add: os_path_join_def)
  have g: "outcome (script_runner demo_lib demo_world ''garbage'' None JNull []) = Inl JSONDecodeError"
    by (simp add: model_defs demo_defs)
  have f: "outcome (script_runner demo_lib demo_world ''fail'' None JNull []) = Inl (ScriptFailed ''fail'' 3)"
    by (simp add: model_defs demo_defs)
  show ?thesis
    using tempdir_removed[of demo_lib demo_world "''garbage''" None JNull "[]"]
      tempdir_removed[of demo_lib demo_world "''fail''" None JNull "[]"]
      tempdir_removed[of demo_lib demo_world "''release''" None JNull "[]"]
    by (simp add: m j g f)
qed

text \<open>
  C1.  A result that \<open>script_runner\<close> returns has \<open>old_revision\<close> set to the revision
  before the run and \<open>new_revision\<close> to the tree's revision after it, and the two
  differ.  When the run gets as far as line 117 (the child exited with status 0, the
  result was read and a description obtained) and the tree's revision after the
  optional commit is still the one before the run, the run raises
  \<open>ScriptMadeNoChanges\<close> instead.
\<close>

theorem revisions_differ:
  "(outcome (script_runner L w0 script commit_pending resume_metadata subpath) = Inr r \<longrightarrow>
      old_revision r = Some (last_rev (local_tree w0)) \<and>
      new_revision r =
        Some (last_rev (local_tree (final (script_runner L w0 script commit_pending resume_metadata subpath)))) \<and>
      old_revision r \<noteq> new_revision r) \<and>
   (execute L w0 script resume_metadata subpath = (Inr (0, out), td, w, tr) \<longrightarrow>
    read_result L (os_path_join td ''result.json'') w = Inr res \<longrightarrow>
    with_description L res out = Inr res1 \<longrightarrow>
    last_rev (local_tree (final (script_runner L w0 script commit_pending resume_metadata subpath))) =
      last_rev (local_tree w0) \<longrightarrow>
    outcome (script_runner L w0 script commit_pending resume_metadata subpath) = Inl ScriptMadeNoChanges)"
proof (intro conjI impI)
  assume e: "execute L w0 script resume_metadata subpath = (Inr (0, out), td, w, tr)"
    and d: "read_result L (os_path_join td ''result.json'') w = Inr res"
    and t: "with_description L res out = Inr res1"
    and s: "last_rev (local_tree (final (script_runner L w0 script commit_pending resume_metadata subpath))) =
      last_rev (local_tree w0)"
  from s reconcile_outcome[OF t]
  show "outcome (script_runner L w0 script commit_pending resume_metadata subpath) = Inl ScriptMadeNoChanges"
    by (simp add: run_decoded[OF e d])
next
  assume a: "outcome (script_runner L w0 script commit_pending resume_metadata subpath) = Inr r"
  from run_returns[OF a] obtain out td w tr res res1 where
    e: "execute L w0 script resume_metadata subpath = (Inr (0, out), td, w, tr)"
    and d: "read_result L (os_path_join td ''result.json'') w = Inr res"
    and t: "with_description L res out = Inr res1" by blast
  let ?R = "reconcile L commit_pending (last_rev (local_tree w0)) (tag_dict (local_tree w0)) res out
       (rmtree td w)
       ([LastRevision, GetTagDict] @ tr @ [OpenRead (os_path_join td ''result.json''), Rmtree td])"
  have R: "script_runner L w0 script commit_pending resume_metadata subpath = ?R"
    by (rule run_decoded[OF e d])
  have n: "last_rev (local_tree (final ?R)) \<noteq> last_rev (local_tree w0)"
    using reconcile_outcome[OF t, of commit_pending "last_rev (local_tree w0)"] a R
    by (cases "last_rev (local_tree (final ?R)) = last_rev (local_tree w0)") auto
  have r: "r = (tagged (tag_dict (local_tree w0)) (rmtree td w) res1)\<lparr>old_revision := Some (last_rev (local_tree w0)),
                     new_revision := Some (last_rev (local_tree (final ?R)))\<rparr>"
    using reconcile_outcome[OF t, of commit_pending "last_rev (local_tree w0)"] a R n by auto
  show "old_revision r = Some (last_rev (local_tree w0))" by (simp add: r)
  show "new_revision r =
        Some (last_rev (local_tree (final (script_runner L w0 script commit_pending resume_metadata subpath))))"
    by (simp add: r R)
  show "old_revision r \<noteq> new_revision r" using n by (simp add: r)
qed

theorem revisions_differ_witness:
  "outcome (script_runner demo_lib demo_world ''release'' None JNull []) =
     Inr \<lparr>description = JStr ''Fix typo'', value' = JNull, context' = JObj [],
          tags = Some [(JStr ''v1'', ''rev2''), (JStr ''v2'', ''rev2'')],
          old_revision = Some ''rev1'', new_revision = Some ''rev2''\<rparr> \<and>
   last_rev (local_tree (final (script_runner demo_lib demo_world ''release'' None JNull []))) = ''rev2'' \<and>
   last_rev (local_tree (final (script_runner demo_lib demo_world ''noop'' None JNull []))) = ''rev1'' \<and>
   outcome (script_runner demo_lib demo_world ''noop'' None JNull []) = Inl ScriptMadeNoChanges"
proof -
  have a: "outcome (script_runner demo_lib demo_world ''release'' None JNull []) =
     Inr \<lparr>description = JStr ''Fix typo'', value' = JNull, context' = JObj [],
          tags = Some [(JStr ''v1'', ''rev2''), (JStr ''v2'', ''rev2'')],
          old_revision = Some ''rev1'', new_revision = Some ''rev2''\<rparr>"
    by (simp add: model_defs demo_defs)
  have e: "execute demo_lib demo_world ''noop'' JNull [] =
      (Inr (0, []), ''/tmp/svp'', demo_world\<lparr>dirs := ''/tmp/svp'' # dirs demo_world\<rparr>,
       [Mkdtemp ''/tmp/svp'',
        Popen ''noop'' ''/work/''
          [(''HOME'', ''/root''), (''SVP_API'', ''1''), (''SVP_RESULT'', ''/tmp/svp/result.json'')]])"
    by (simp add: execute_def demo_defs os_path_join_def Let_def)
  have d: "read_result demo_lib (os_path_join ''/tmp/svp'' ''result.json'')
      (demo_world\<lparr>dirs := ''/tmp/svp'' # dirs demo_world\<rparr>) = Inr CommandResult_default"
    by (simp add: read_result_def open_read_def demo_defs os_path_join_def)
  have t: "with_description demo_lib CommandResult_default [] =
      Inr (CommandResult_default\<lparr>description := JStr []\<rparr>)"
    by (simp add: with_description_def CommandResult_default_def demo_defs)
  have s: "last_rev (local_tree (final (script_runner demo_lib demo_world ''noop'' None JNull []))) =
      last_rev (local_tree demo_world)"
    by (simp add: model_defs demo_defs)
  have l: "last_rev (local_tree demo_world) = ''rev1''" by (simp add: demo_defs)
  from revisions_differ[THEN conjunct1, rule_format, OF a]
    revisions_differ[THEN conjunct2, rule_format, OF e d t s] a s l
  show ?thesis by simp
qed


text \<open>
  C10.  When the child exits with a non-zero status the run is \<open>ScriptFailed\<close>, the
  calls that follow the child are the removal of the directory alone, and the result
  file is never opened: whatever the child wrote there (the world \<open>w\<close> it left is
  arbitrary) does not enter the outcome.  In the example the failing script has
  written a payload that would decode.
\<close>

theorem script_failed_before_read:
  assumes "execute L w0 script resume_metadata subpath = (Inr (returncode, out), td, w, tr)"
    and "returncode \<noteq> 0"
  shows "script_runner L w0 script commit_pending resume_metadata subpath =
           \<lparr>outcome = Inl (ScriptFailed script returncode), final = rmtree td w,
            calls = [LastRevision, GetTagDict] @ tr @ [Rmtree td]\<rparr> \<and>
         (\<forall>p. OpenRead p \<notin> set (calls (script_runner L w0 script commit_pending resume_metadata subpath)))"
proof -
  from execute_Inr[OF assms(1)] obtain env where
    tr: "tr = [Mkdtemp td, Popen script (abspath (local_tree w0) subpath) env]" by blast
  show ?thesis by (simp add: run_failed[OF assms] tr)
qed

theorem script_failed_before_read_witness:
  "read_result demo_lib ''/tmp/svp/result.json''
     \<lparr>files = [(''/tmp/svp/result.json'', ''{description: Fix typo}'')],
      dirs = [''/tmp/svp'', ''/tmp'', ''/work''], local_tree = demo_tree\<rparr> =
     Inr \<lparr>description = JStr ''Fix typo'', value' = JNull, context' = JObj [], tags = None,
          old_revision = None, new_revision = None\<rparr> \<and>
   outcome (script_runner demo_lib demo_world ''fail'' None JNull []) = Inl (ScriptFailed ''fail'' 3) \<and>
   OpenRead ''/tmp/svp/result.json'' \<notin> set (calls (script_runner demo_lib demo_world ''fail'' None JNull []))"
proof -
  have e: "execute demo_lib demo_world ''fail'' JNull [] =
      (Inr (3, ''failed''), ''/tmp/svp'',
       \<lparr>files = [(''/tmp/svp/result.json'', ''{description: Fix typo}'')],
        dirs = [''/tmp/svp'', ''/tmp'', ''/work''], local_tree = demo_tree\<rparr>,
       [Mkdtemp ''/tmp/svp'',
        Popen ''fail'' ''/work/''
          [(''HOME'', ''/root''), (''SVP_API'', ''1''), (''SVP_RESULT'', ''/tmp/svp/result.json'')]])"
    by (simp add: execute_def demo_defs os_path_join_def Let_def)
  have d: "read_result demo_lib ''/tmp/svp/result.json''
     \<lparr>files = [(''/tmp/svp/result.json'', ''{description: Fix typo}'')],
      dirs = [''/tmp/svp'', ''/tmp'', ''/work''], local_tree = demo_tree\<rparr> =
     Inr \<lparr>description = JStr ''Fix typo'', value' = JNull, context' = JObj [], tags = None,
          old_revision = None, new_revision = None\<rparr>"
    by (simp add: read_result_def open_read_def from_json_def dict_get_def demo_defs)
  from script_failed_before_read[OF e, of None] d show ?thesis by simp
qed

text \<open>
  C5.  When the child exits with status 0, nothing exists at the result path and the
  child's standard output is valid UTF-8, reading the result raises nothing and gives
  the default result, whose description line 101 sets to the decoded output: the run
  returns a result with that description, or raises \<open>ScriptMadeNoChanges\<close>.
\<close>

theorem absent_result_default:
  assumes "execute L w0 script resume_metadata subpath = (Inr (0, out), td, w, tr)"
    and "map_of (files w) (os_path_join td ''result.json'') = None"
    and "os_path_join td ''result.json'' \<notin> set (dirs w)"
    and "utf8_decode L out = Some d"
  shows "read_result L (os_path_join td ''result.json'') w = Inr CommandResult_default \<and>
         with_description L CommandResult_default out =
           Inr (CommandResult_default\<lparr>description := JStr d\<rparr>) \<and>
         (outcome (script_runner L w0 script commit_pending resume_metadata subpath) =
            Inl ScriptMadeNoChanges \<or>
          (\<exists>r. outcome (script_runner L w0 script commit_pending resume_metadata subpath) = Inr r \<and>
               description r = JStr d))"
proof -
  let ?R = "script_runner L w0 script commit_pending resume_metadata subpath"
  note o = absent_result_outcomes[OF assms(1,2,3), of commit_pending]
  have t: "with_description L CommandResult_default out =
      Inr (CommandResult_default\<lparr>description := JStr d\<rparr>)"
    using assms(4) by (simp add: with_description_def CommandResult_default_def)
  have "outcome ?R = Inl ScriptMadeNoChanges \<or> (\<exists>r. outcome ?R = Inr r \<and> description r = JStr d)"
  proof (cases "outcome ?R")
    case (Inl e)
    with o assms(4) show ?thesis by auto
  next
    case (Inr r)
    with o assms(4) show ?thesis by auto
  qed
  with o t show ?thesis by simp
qed

theorem absent_result_default_witness:
  "read_result demo_lib ''/tmp/svp/result.json''
     (released (demo_world\<lparr>dirs := ''/tmp/svp'' # dirs demo_world\<rparr>)) = Inr CommandResult_default \<and>
   with_description demo_lib CommandResult_default ''released'' =
     Inr (CommandResult_default\<lparr>description := JStr ''released''\<rparr>) \<and>
   outcome (script_runner demo_lib demo_world ''silent'' None JNull []) =
     Inr \<lparr>description = JStr ''released'', value' = JNull, context' = JObj [], tags = Some [],
          old_revision = Some ''rev1'', new_revision = Some ''rev2''\<rparr>"
proof -
  have j: "os_path_join ''/tmp/svp'' ''result.json'' = ''/tmp/svp/result.json''"
    by (simp add: os_path_join_def)
  have e: "execute demo_lib demo_world ''silent'' JNull [] =
      (Inr (0, ''released''), ''/tmp/svp'',
       released (demo_world\<lparr>dirs := ''/tmp/svp'' # dirs demo_world\<rparr>),
       [Mkdtemp ''/tmp/svp'',
        Popen ''silent'' ''/work/''
          [(''HOME'', ''/root''), (''SVP_API'', ''1''), (''SVP_RESULT'', ''/tmp/svp/result.json'')]])"
    by (simp add: execute_def demo_defs os_path_join_def Let_def)
  have m: "map_of (files (released (demo_world\<lparr>dirs := ''/tmp/svp'' # dirs demo_world\<rparr>)))
      (os_path_join ''/tmp/svp'' ''result.json'') = None"
    by (simp add: demo_defs)
  have n: "os_path_join ''/tmp/svp'' ''result.json'' \<notin>
      set (dirs (released (demo_world\<lparr>dirs := ''/tmp/svp'' # dirs demo_world\<rparr>)))"
    by (simp add: demo_defs j)
  have u: "utf8_decode demo_lib ''released'' = Some ''released''"
    by (simp add: demo_defs)
  have a: "outcome (script_runner demo_lib demo_world ''silent'' None JNull []) =
     Inr \<lparr>description = JStr ''released'', value' = JNull, context' = JObj [], tags = Some [],
          old_revision = Some ''rev1'', new_revision = Some ''rev2''\<rparr>"
    by (simp add: model_defs demo_defs)
  from absent_result_default[OF e m n u, of None] a show ?thesis by (simp add: j)
qed

text \<open>
  The claim as first stated, without the condition on the output, fails: the script
  of \<open>binary_lib\<close> exits with status 0 and leaves no result file (and no directory) at
  the result path, its output does not decode, and the run raises the
  \<open>UnicodeDecodeError\<close> of line 101 instead of producing a result.
\<close>

theorem absent_result_undecodable_output:
  "execute binary_lib demo_world ''binary'' JNull [] =
     (Inr (0, [CHR 0xFF]), ''/tmp/svp'',
      released (demo_world\<lparr>dirs := ''/tmp/svp'' # dirs demo_world\<rparr>),
      [Mkdtemp ''/tmp/svp'',
       Popen ''binary'' ''/work/''
         [(''HOME'', ''/root''), (''SVP_API'', ''1''), (''SVP_RESULT'', ''/tmp/svp/result.json'')]]) \<and>
   map_of (files (released (demo_world\<lparr>dirs := ''/tmp/svp'' # dirs demo_world\<rparr>)))
     (os_path_join ''/tmp/svp'' ''result.json'') = None \<and>
   os_path_join ''/tmp/svp'' ''result.json'' \<notin>
     set (dirs (released (demo_world\<lparr>dirs := ''/tmp/svp'' # dirs demo_world\<rparr>))) \<and>
   utf8_decode binary_lib [CHR 0xFF] = None \<and>
   outcome (script_runner binary_lib demo_world ''binary'' None JNull []) = Inl UnicodeDecodeError"
  by (simp add: model_defs demo_defs binary_lib_def)

text \<open>
  C6.  When the child exits with status 0, the result is read and has its description,
  the tree's revision after the script is the one before the run and the caller passed
  \<open>commit_pending = None\<close>, the run attempts a commit, exactly with the result's
  description as message, and the tree afterwards is what that commit leaves.
\<close>

theorem forced_commit:
  assumes "execute L w0 script resume_metadata subpath = (Inr (0, out), td, w, tr)"
    and "read_result L (os_path_join td ''result.json'') w = Inr res"
    and "with_description L res out = Inr res1"
    and "last_rev (local_tree w) = last_rev (local_tree w0)"
  shows "Commit (description res1) \<in> set (calls (script_runner L w0 script None resume_metadata subpath)) \<and>
         (\<forall>m. Commit m \<in> set (calls (script_runner L w0 script None resume_metadata subpath)) \<longrightarrow>
            m = description res1) \<and>
         (\<forall>r. outcome (script_runner L w0 script None resume_metadata subpath) = Inr r \<longrightarrow>
            description r = description res1) \<and>
         local_tree (final (script_runner L w0 script None resume_metadata subpath)) =
           (case commit (description res1) (local_tree w) of
              Inl e \<Rightarrow> local_tree w
            | Inr (r, t) \<Rightarrow> t)"
proof -
  let ?p = "os_path_join td ''result.json''"
  let ?tr = "[LastRevision, GetTagDict] @ tr @ [OpenRead ?p, Rmtree td]"
  have R: "script_runner L w0 script None resume_metadata subpath =
      reconcile L None (last_rev (local_tree w0)) (tag_dict (local_tree w0)) res out (rmtree td w) ?tr"
    by (rule run_decoded[OF assms(1,2)])
  have c: "commits None (last_rev (local_tree w0)) (rmtree td w)"
    using assms(4) by (simp add: commits_def rmtree_tree)
  have b: "\<And>m. Commit m \<notin> set ?tr" by (rule run_calls_before[OF assms(1)])
  show ?thesis
  proof (cases "pending (local_tree w)")
    case None
    then have "pending (local_tree (rmtree td w)) = None" by (simp add: rmtree_tree)
    from reconcile_pointless[OF assms(3) c this] b None show ?thesis
      by (simp add: R commit_def rmtree_tree tagged_description)
  next
    case (Some r)
    then have "pending (local_tree (rmtree td w)) = Some r" by (simp add: rmtree_tree)
    from reconcile_committed[OF assms(3) c this] b Some show ?thesis
      by (simp add: R commit_def rmtree_tree tagged_description)
  qed
qed


theorem forced_commit_witness:
  "calls (script_runner demo_lib demo_world ''edit'' None JNull []) =
     [LastRevision, GetTagDict, Mkdtemp ''/tmp/svp'',
      Popen ''edit'' ''/work/''
        [(''HOME'', ''/root''), (''SVP_API'', ''1''), (''SVP_RESULT'', ''/tmp/svp/result.json'')],
      OpenRead ''/tmp/svp/result.json'', Rmtree ''/tmp/svp'', LastRevision, GetTagDict,
      Commit (JStr ''Fix typo''), LastRevision] \<and>
   Commit (JStr ''Fix typo'') \<in> set (calls (script_runner demo_lib demo_world ''edit'' None JNull [])) \<and>
   last_rev (local_tree (final (script_runner demo_lib demo_world ''edit'' None JNull []))) = ''rev2''"
proof -
  let ?w = "\<lparr>files = [(''/tmp/svp/result.json'', ''{description: Fix typo}'')],
        dirs = [''/tmp/svp'', ''/tmp'', ''/work''],
        local_tree = demo_tree\<lparr>pending := Some ''rev2''\<rparr>\<rparr>"
  let ?res = "\<lparr>description = JStr ''Fix typo'', value' = JNull, context' = JObj [], tags = None,
          old_revision = None, new_revision = None\<rparr>"
  have e: "execute demo_lib demo_world ''edit'' JNull [] =
      (Inr (0, ''edited''), ''/tmp/svp'', ?w,
       [Mkdtemp ''/tmp/svp'',
        Popen ''edit'' ''/work/''
          [(''HOME'', ''/root''), (''SVP_API'', ''1''), (''SVP_RESULT'', ''/tmp/svp/result.json'')]])"
    by (simp add: execute_def demo_defs os_path_join_def Let_def)
  have d: "read_result demo_lib (os_path_join ''/tmp/svp'' ''result.json'') ?w = Inr ?res"
    by (simp add: read_result_def open_read_def from_json_def dict_get_def demo_defs os_path_join_def)
  have t: "with_description demo_lib ?res ''edited'' = Inr ?res"
    by (simp add: with_description_def)
  have s: "last_rev (local_tree ?w) = last_rev (local_tree demo_world)"
    by (simp add: demo_defs)
  have c: "calls (script_runner demo_lib demo_world ''edit'' None JNull []) =
     [LastRevision, GetTagDict, Mkdtemp ''/tmp/svp'',
      Popen ''edit'' ''/work/''
        [(''HOME'', ''/root''), (''SVP_API'', ''1''), (''SVP_RESULT'', ''/tmp/svp/result.json'')],
      OpenRead ''/tmp/svp/result.json'', Rmtree ''/tmp/svp'', LastRevision, GetTagDict,
      Commit (JStr ''Fix typo''), LastRevision]"
    by (simp add: model_defs demo_defs)
  from forced_commit[OF e d t s] c show ?thesis by (simp add: commit_def demo_defs)
qed

text \<open>
  C7.  No run ends in \<open>PointlessCommit\<close>.  When a commit is attempted and the commit
  primitive raises \<open>PointlessCommit\<close>, the tree stays as the child left it, and the run
  continues to the same outcome and the same final world as the run that skips the
  commit (\<open>commit_pending = False\<close>).
\<close>

theorem pointless_commit_absorbed:
  "outcome (script_runner L w0 script commit_pending resume_metadata subpath) \<noteq> Inl PointlessCommit \<and>
   (execute L w0 script resume_metadata subpath = (Inr (0, out), td, w, tr) \<longrightarrow>
    read_result L (os_path_join td ''result.json'') w = Inr res \<longrightarrow>
    with_description L res out = Inr res1 \<longrightarrow>
    Commit m \<in> set (calls (script_runner L w0 script commit_pending resume_metadata subpath)) \<longrightarrow>
    commit m (local_tree w) = Inl PointlessCommit \<longrightarrow>
      outcome (script_runner L w0 script commit_pending resume_metadata subpath) =
        outcome (script_runner L w0 script (Some False) resume_metadata subpath) \<and>
      final (script_runner L w0 script commit_pending resume_metadata subpath) =
        final (script_runner L w0 script (Some False) resume_metadata subpath) \<and>
      local_tree (final (script_runner L w0 script commit_pending resume_metadata subpath)) =
        local_tree w)"
proof (intro conjI impI)
  show "outcome (script_runner L w0 script commit_pending resume_metadata subpath) \<noteq> Inl PointlessCommit"
    using run_error[of L w0 script commit_pending resume_metadata subpath PointlessCommit] by blast
next
  assume e: "execute L w0 script resume_metadata subpath = (Inr (0, out), td, w, tr)"
    and d: "read_result L (os_path_join td ''result.json'') w = Inr res"
    and t: "with_description L res out = Inr res1"
    and a: "Commit m \<in> set (calls (script_runner L w0 script commit_pending resume_metadata subpath))"
    and p: "commit m (local_tree w) = Inl PointlessCommit"
  let ?p = "os_path_join td ''result.json''"
  let ?tr = "[LastRevision, GetTagDict] @ tr @ [OpenRead ?p, Rmtree td]"
  let ?lr = "last_rev (local_tree w0)"
  let ?ot = "tag_dict (local_tree w0)"
  have R: "\<And>cp. script_runner L w0 script cp resume_metadata subpath =
      reconcile L cp ?lr ?ot res out (rmtree td w) ?tr"
    by (rule run_decoded[OF e d])
  have b: "\<And>m. Commit m \<notin> set ?tr" by (rule run_calls_before[OF e])
  have n: "pending (local_tree (rmtree td w)) = None"
    using p by (simp add: commit_def rmtree_tree split: option.splits)
  have f: "\<not> commits (Some False) ?lr (rmtree td w)" by (simp add: commits_def)
  have c: "commits commit_pending ?lr (rmtree td w)"
  proof (rule ccontr)
    assume "\<not> commits commit_pending ?lr (rmtree td w)"
    from reconcile_no_commit[OF t this, of ?ot ?tr] a b show False by (simp add: R split: if_splits)
  qed
  from reconcile_pointless[OF t c n, of ?ot ?tr] reconcile_no_commit[OF t f, of ?ot ?tr]
  show "outcome (script_runner L w0 script commit_pending resume_metadata subpath) =
        outcome (script_runner L w0 script (Some False) resume_metadata subpath)"
    and "final (script_runner L w0 script commit_pending resume_metadata subpath) =
        final (script_runner L w0 script (Some False) resume_metadata subpath)"
    and "local_tree (final (script_runner L w0 script commit_pending resume_metadata subpath)) =
        local_tree w"
    by (simp_all add: R rmtree_tree)
qed

theorem pointless_commit_absorbed_witness:
  "commit (JStr ''Fix typo'') (local_tree (released demo_world)) = Inl PointlessCommit \<and>
   Commit (JStr ''Fix typo'') \<in>
     set (calls (script_runner demo_lib demo_world ''release'' (Some True) JNull [])) \<and>
   outcome (script_runner demo_lib demo_world ''release'' (Some True) JNull []) =
     Inr \<lparr>description = JStr ''Fix typo'', value' = JNull, context' = JObj [],
          tags = Some [(JStr ''v1'', ''rev2''), (JStr ''v2'', ''rev2'')],
          old_revision = Some ''rev1'', new_revision = Some ''rev2''\<rparr> \<and>
   outcome (script_runner demo_lib demo_world ''release'' (Some True) JNull []) =
     outcome (script_runner demo_lib demo_world ''release'' (Some False) JNull [])"
proof -
  let ?w = "\<lparr>files = [(''/tmp/svp/result.json'', ''{description: Fix typo}'')],
        dirs = [''/tmp/svp'', ''/tmp'', ''/work''],
        local_tree = local_tree (released demo_world)\<rparr>"
  let ?res = "\<lparr>description = JStr ''Fix typo'', value' = JNull, context' = JObj [], tags = None,
          old_revision = None, new_revision = None\<rparr>"
  have e: "execute demo_lib demo_world ''release'' JNull [] =
      (Inr (0, ''released''), ''/tmp/svp'', ?w,
       [Mkdtemp ''/tmp/svp'',
        Popen ''release'' ''/work/''
          [(''HOME'', ''/root''), (''SVP_API'', ''1''), (''SVP_RESULT'', ''/tmp/svp/result.json'')]])"
    by (simp add: execute_def demo_defs os_path_join_def Let_def)
  have d: "read_result demo_lib (os_path_join ''/tmp/svp'' ''result.json'') ?w = Inr ?res"
    by (simp add: read_result_def open_read_def from_json_def dict_get_def demo_defs os_path_join_def)
  have t: "with_description demo_lib ?res ''released'' = Inr ?res"
    by (simp add: with_description_def)
  have a: "Commit (JStr ''Fix typo'') \<in>
     set (calls (script_runner demo_lib demo_world ''release'' (Some True) JNull []))"
    by (simp add: model_defs demo_defs)
  have p: "commit (JStr ''Fix typo'') (local_tree ?w) = Inl PointlessCommit"
    by (simp add: commit_def demo_defs)
  have o: "outcome (script_runner demo_lib demo_world ''release'' (Some True) JNull []) =
     Inr \<lparr>description = JStr ''Fix typo'', value' = JNull, context' = JObj [],
          tags = Some [(JStr ''v1'', ''rev2''), (JStr ''v2'', ''rev2'')],
          old_revision = Some ''rev1'', new_revision = Some ''rev2''\<rparr>"
    by (simp add: model_defs demo_defs)
  from pointless_commit_absorbed[THEN conjunct2, rule_format, OF e d t a p] a p o
  show ?thesis by simp
qed




text \<open>
  C4.  The run of the script \<open>silent\<close>, which exits with status 0, writes no result
  file, moves tag \<open>v1\<close> and adds tag \<open>v2\<close>: the returned tags are empty, although the
  tag delta between the two snapshots holds both tags.  The script \<open>release\<close>, which
  leaves the same tree and writes a payload without a \<open>tags\<close> key, gets them computed.
\<close>

theorem absent_result_tags_not_computed:
  "outcome (script_runner demo_lib demo_world ''silent'' None JNull []) =
     Inr \<lparr>description = JStr ''released'', value' = JNull, context' = JObj [], tags = Some [],
          old_revision = Some ''rev1'', new_revision = Some ''rev2''\<rparr> \<and>
   tag_dict (local_tree demo_world) = [(''v1'', ''rev1''), (''old'', ''rev0'')] \<and>
   tag_dict (local_tree (final (script_runner demo_lib demo_world ''silent'' None JNull []))) =
     [(''v1'', ''rev2''), (''v2'', ''rev2'')] \<and>
   tag_delta [(''v1'', ''rev1''), (''old'', ''rev0'')] [(''v1'', ''rev2''), (''v2'', ''rev2'')] =
     [(JStr ''v1'', ''rev2''), (JStr ''v2'', ''rev2'')] \<and>
   outcome (script_runner demo_lib demo_world ''release'' None JNull []) =
     Inr \<lparr>description = JStr ''Fix typo'', value' = JNull, context' = JObj [],
          tags = Some [(JStr ''v1'', ''rev2''), (JStr ''v2'', ''rev2'')],
          old_revision = Some ''rev1'', new_revision = Some ''rev2''\<rparr>"
  by (simp add: model_defs demo_defs tag_delta_def)


text \<open>
  C8.  The run with resume metadata \<open>{"attempt": 2}\<close>: line 88 calls \<open>json.dump\<close> with
  the file as the object and the metadata as the file, which raises \<open>TypeError\<close>; the
  metadata file stays empty until it is removed with the directory, and no child is
  launched.  With the arguments in the order of \<open>json.dump\<close>'s signature the metadata
  would have been written.
\<close>

theorem resume_metadata_not_written:
  "script_runner demo_lib demo_world ''edit'' None (JObj [(''attempt'', JInt 2)]) [] =
     \<lparr>outcome = Inl TypeError, final = demo_world,
      calls = [LastRevision, GetTagDict, Mkdtemp ''/tmp/svp'',
               OpenWrite ''/tmp/svp/resume-metadata.json'', Rmtree ''/tmp/svp'']\<rparr> \<and>
   json_dump demo_lib (FileObj ''/tmp/svp/resume-metadata.json'') (Data (JObj [(''attempt'', JInt 2)]))
     (open_write ''/tmp/svp/resume-metadata.json'' demo_world) = Inl TypeError \<and>
   json_dump demo_lib (Data (JObj [(''attempt'', JInt 2)])) (FileObj ''/tmp/svp/resume-metadata.json'')
     (open_write ''/tmp/svp/resume-metadata.json'' demo_world) =
     Inr (demo_world\<lparr>files := [(''/tmp/svp/resume-metadata.json'', ''{attempt: 2}'')]\<rparr>)"
  by (simp add: model_defs demo_defs)

end
